theory Spec2Isabelle
  imports Complex_Main "HOL-Library.Word"
begin

section \<open>The Sentinel Hub processing-API input task\<close>

text \<open>
  A shallow embedding of \<^verbatim>\<open>eolearn/io/processing_api.py\<close>, class
  \<^verbatim>\<open>SentinelHubProcessingInput\<close>. Every \<^verbatim>\<open>raise\<close> of the Python
  (the explicit one and the ones the interpreter performs itself) is a value of
  \<open>error\<close>; the collaborators of the task (the web feature service, the request
  builders of \<^verbatim>\<open>sentinelhub_request\<close>, the download client and the element-wise
  float operations of numpy) are fields of an environment record.
\<close>

subsection \<open>Errors\<close>

datatype error =
    ValueError string
  | UnboundLocalError string
  | AttributeError string
  | TypeError string
  | KeyError string
  | IndexError string
  | ZeroDivisionError
  | OverflowError
  | CollaboratorError string

subsection \<open>Time\<close>

text \<open>
  A naive \<^verbatim>\<open>datetime\<close> is the number of microseconds since
  0001-01-01T00:00:00, a \<^verbatim>\<open>timedelta\<close> a number of microseconds. Sorting,
  comparison and subtraction of datetimes are then those of the integers.
\<close>

type_synonym datetime = int
type_synonym timedelta = int

subsection \<open>Configuration\<close>

datatype feature_type =
    DATA | MASK | SCALAR | LABEL | VECTOR
  | DATA_TIMELESS | MASK_TIMELESS | SCALAR_TIMELESS | LABEL_TIMELESS | VECTOR_TIMELESS
  | META_INFO | BBOX | TIMESTAMP

type_synonym feature = "feature_type \<times> string"

type_synonym time_interval = "string \<times> string"

record data_source =
  api_identifier :: string
  ds_bands :: "string list"

record bbox =
  min_x :: real
  min_y :: real
  max_x :: real
  max_y :: real
  opengis_string :: string

record config =
  size :: "(int \<times> int) option"
  resolution :: "real option"
  data_source :: data_source
  maxcc :: real
  time_difference :: timedelta
  cache_folder :: "string option"
  max_threads :: int
  bands_feature :: "feature option"
  bands :: "string list"
  additional_data :: "feature list"
  all_bands :: "string list"

text \<open>
  \<^verbatim>\<open>__init__\<close>. The conditional expression binds weaker than \<^verbatim>\<open>or\<close>:
  \<^verbatim>\<open>self.bands = (bands or data_source.bands()) if bands_feature else []\<close>.
  An absent argument (\<^verbatim>\<open>None\<close>) and an empty list are both falsy.
\<close>

definition init ::
  "data_source \<Rightarrow> (int \<times> int) option \<Rightarrow> real option \<Rightarrow> feature option \<Rightarrow>
   string list option \<Rightarrow> feature list option \<Rightarrow> real \<Rightarrow> timedelta \<Rightarrow>
   string option \<Rightarrow> int \<Rightarrow> config" where
  "init ds sz res bf bs ad mcc td cf mt =
     (let the_bands =
            (case bf of
               Some _ \<Rightarrow>
                 (case bs of
                    Some b \<Rightarrow> if b \<noteq> [] then b else ds_bands ds
                  | None \<Rightarrow> ds_bands ds)
             | None \<Rightarrow> []);
          the_additional = (case ad of Some a \<Rightarrow> a | None \<Rightarrow> [])
      in \<lparr> size = sz, resolution = res, data_source = ds, maxcc = mcc,
           time_difference = td, cache_folder = cf, max_threads = mt,
           bands_feature = bf, bands = the_bands, additional_data = the_additional,
           all_bands = the_bands @ map snd the_additional \<rparr>)"

subsection \<open>Date selection\<close>

text \<open>
  \<^verbatim>\<open>str(time_interval)\<close> for the error message: the \<^verbatim>\<open>repr\<close> of a pair of
  strings, or \<^verbatim>\<open>None\<close>. The strings of a time interval are dates in ASCII without
  quotes or backslashes, which \<^verbatim>\<open>repr\<close> puts between single quotes unchanged.
\<close>

definition str_time_interval :: "time_interval option \<Rightarrow> string" where
  "str_time_interval ti =
     (case ti of
        None \<Rightarrow> ''None''
      | Some (a, b) \<Rightarrow> ''('' @ [CHR 0x27] @ a @ [CHR 0x27] @ '', '' @ [CHR 0x27] @ b @ [CHR 0x27] @ '')'')"

text \<open>
  The filter of \<^verbatim>\<open>get_dates\<close> on the dates the web feature service returned:
  \<^verbatim>\<open>[dates[0]] + [d2 for d1, d2 in zip(dates[:-1], dates[1:]) if d2 - d1 > self.time_difference]\<close>
  after \<^verbatim>\<open>sorted\<close>.
\<close>

definition get_dates :: "config \<Rightarrow> datetime list \<Rightarrow> time_interval option \<Rightarrow> error + datetime list" where
  "get_dates cfg wfs_dates ti =
     (if length wfs_dates = 0
      then Inl (ValueError (''No available images for requested time range: '' @ str_time_interval ti))
      else
        let dates = sort wfs_dates
        in Inr ([dates ! 0] @
                map snd (filter (\<lambda>(d1, d2). d2 - d1 > time_difference cfg)
                               (zip (butlast dates) (tl dates)))))"

subsection \<open>String formatting\<close>

text \<open>
  \<^verbatim>\<open>str(n)\<close> for a non-negative integer: its decimal digits.
\<close>

definition digit_char :: "nat \<Rightarrow> char" where
  "digit_char d = ''0123456789'' ! d"

fun str_nat :: "nat \<Rightarrow> string" where
  "str_nat n = (if n < 10 then [digit_char n] else str_nat (n div 10) @ [digit_char (n mod 10)])"

declare str_nat.simps [simp del]

text \<open>\<^verbatim>\<open>sep.join(parts)\<close>.\<close>

fun join :: "string \<Rightarrow> string list \<Rightarrow> string" where
  "join sep [] = []"
| "join sep [x] = x"
| "join sep (x # y # ys) = x @ sep @ join sep (y # ys)"

text \<open>
  \<^verbatim>\<open>str.format\<close>, for the templates of this module: replacement fields are
  \<^verbatim>\<open>{}\<close> (the next positional argument) or \<^verbatim>\<open>{name}\<close> (a keyword argument),
  \<^verbatim>\<open>{{\<close> and \<^verbatim>\<open>}}\<close> stand for a brace. The scanner reads the template once, left
  to right; the text of an inserted argument is not scanned. Arguments are given
  already converted by \<^verbatim>\<open>str\<close>. An error found further right replaces the
  text produced so far (\<open>emit\<close>).
\<close>

datatype fmt_mode = Text | AfterOpen | AfterClose | Field string

fun emit :: "string \<Rightarrow> error + string \<Rightarrow> error + string" where
  "emit s (Inr t) = Inr (s @ t)"
| "emit s (Inl e) = Inl e"

fun fmt :: "fmt_mode \<Rightarrow> string list \<Rightarrow> (string \<times> string) list \<Rightarrow> string \<Rightarrow> error + string" where
  "fmt Text args kw [] = Inr []"
| "fmt AfterOpen args kw [] = Inl (ValueError ''Single { encountered in format string'')"
| "fmt AfterClose args kw [] = Inl (ValueError ''Single } encountered in format string'')"
| "fmt (Field nm) args kw [] = Inl (ValueError ''expected } before end of string'')"
| "fmt Text args kw (c # cs) =
     (if c = CHR ''{'' then fmt AfterOpen args kw cs
      else if c = CHR ''}'' then fmt AfterClose args kw cs
      else emit [c] (fmt Text args kw cs))"
| "fmt AfterOpen args kw (c # cs) =
     (if c = CHR ''{'' then emit [c] (fmt Text args kw cs)
      else if c = CHR ''}'' then
        (case args of
           [] \<Rightarrow> Inl (IndexError ''tuple index out of range'')
         | a # rest \<Rightarrow> emit a (fmt Text rest kw cs))
      else fmt (Field [c]) args kw cs)"
| "fmt AfterClose args kw (c # cs) =
     (if c = CHR ''}'' then emit [c] (fmt Text args kw cs)
      else Inl (ValueError ''Single } encountered in format string''))"
| "fmt (Field nm) args kw (c # cs) =
     (if c = CHR ''}'' then
        (case map_of kw nm of
           None \<Rightarrow> Inl (KeyError nm)
         | Some v \<Rightarrow> emit v (fmt Text args kw cs))
      else if c = CHR ''{'' then Inl (ValueError ''unexpected { in field name'')
      else fmt (Field (nm @ [c])) args kw cs)"

definition format :: "string \<Rightarrow> string list \<Rightarrow> (string \<times> string) list \<Rightarrow> error + string" where
  "format template args kw = fmt Text args kw template"

text \<open>
  \<^verbatim>\<open>json.dumps\<close> of a list of strings, with the default separators and
  \<^verbatim>\<open>ensure_ascii\<close>: every character outside the printable ASCII range, the
  quote and the backslash are escaped. A \<open>char\<close> is a code point below 256.
\<close>

definition hex_char :: "nat \<Rightarrow> char" where
  "hex_char d = ''0123456789abcdef'' ! d"

definition json_escape :: "char \<Rightarrow> string" where
  "json_escape c =
     (if c = CHR 0x22 then [CHR 0x5C, CHR 0x22]
      else if c = CHR 0x5C then [CHR 0x5C, CHR 0x5C]
      else if c = CHR 0x0A then [CHR 0x5C, CHR ''n'']
      else if c = CHR 0x0D then [CHR 0x5C, CHR ''r'']
      else if c = CHR 0x09 then [CHR 0x5C, CHR ''t'']
      else if c = CHR 0x08 then [CHR 0x5C, CHR ''b'']
      else if c = CHR 0x0C then [CHR 0x5C, CHR ''f'']
      else if (of_char c :: nat) < 0x20 \<or> 0x7E < (of_char c :: nat) then
        [CHR 0x5C, CHR ''u'', CHR ''0'', CHR ''0'',
         hex_char (of_char c div 16), hex_char (of_char c mod 16)]
      else [c])"

definition json_dumps_str :: "string \<Rightarrow> string" where
  "json_dumps_str s = [CHR 0x22] @ concat (map json_escape s) @ [CHR 0x22]"

definition json_dumps :: "string list \<Rightarrow> string" where
  "json_dumps xs = ''['' @ join '', '' (map json_dumps_str xs) @ '']''"

subsection \<open>The script sent with every request\<close>

definition evalscript_template :: string where
  "evalscript_template =
      ''\<newline>'' @
      ''            function setup() {{\<newline>'' @
      ''                return {{\<newline>'' @
      ''                    input: [{{\<newline>'' @
      ''                        bands: {bands},\<newline>'' @
      ''                        units: \"DN\"\<newline>'' @
      ''                    }}],\<newline>'' @
      ''                    output: {{\<newline>'' @
      ''                        id:\"default\",\<newline>'' @
      ''                        bands: {num_bands},\<newline>'' @
      ''                        sampleType: SampleType.UINT16\<newline>'' @
      ''                    }}\<newline>'' @
      ''                }}\<newline>'' @
      ''            }}\<newline>'' @
      ''\<newline>'' @
      ''            function updateOutputMetadata(scenes, inputMetadata, outputMetadata) {{\<newline>'' @
      ''                outputMetadata.userData = {{ \"norm_factor\":  inputMetadata.normalizationFactor }}\<newline>'' @
      ''            }}\<newline>'' @
      ''\<newline>'' @
      ''            function evaluatePixel(sample) {{\<newline>'' @
      ''                return {samples}\<newline>'' @
      ''            }}\<newline>'' @
      ''        ''"

text \<open>
  \<^verbatim>\<open>generate_evalscript\<close>. An exception of one of the inner \<^verbatim>\<open>format\<close> calls
  leaves the method at once.
\<close>

fun sample_names :: "string list \<Rightarrow> error + string list" where
  "sample_names [] = Inr []"
| "sample_names (band # rest) =
     (case format ''sample.{}'' [band] [] of
        Inl e \<Rightarrow> Inl e
      | Inr s \<Rightarrow> (case sample_names rest of Inl e \<Rightarrow> Inl e | Inr ss \<Rightarrow> Inr (s # ss)))"

definition generate_evalscript :: "config \<Rightarrow> error + string" where
  "generate_evalscript cfg =
     (case sample_names (all_bands cfg) of
        Inl e \<Rightarrow> Inl e
      | Inr names \<Rightarrow>
          (case format ''[{}]'' [join '', '' names] [] of
             Inl e \<Rightarrow> Inl e
           | Inr samples \<Rightarrow>
               format evalscript_template []
                 [(''bands'', json_dumps (all_bands cfg)),
                  (''num_bands'', str_nat (length (all_bands cfg))),
                  (''samples'', samples)]))"

subsection \<open>Rendering a datetime\<close>

text \<open>
  \<^verbatim>\<open>datetime.isoformat()\<close> of a naive datetime: the proleptic Gregorian date of
  the day number (\<^verbatim>\<open>_ord2ymd\<close> of the standard library, day 1 being 0001-01-01),
  the time of day, and the microseconds only when they are not zero.
\<close>

definition DAYS_IN_MONTH :: "int list" where
  "DAYS_IN_MONTH = [-1, 31, 28, 31, 30, 31, 30, 31, 31, 30, 31, 30, 31]"

definition DAYS_BEFORE_MONTH :: "int list" where
  "DAYS_BEFORE_MONTH = [-1, 0, 31, 59, 90, 120, 151, 181, 212, 243, 273, 304, 334]"

definition ord2ymd :: "int \<Rightarrow> int \<times> int \<times> int" where
  "ord2ymd ordinal =
     (let n = ordinal - 1;
          n400 = n div 146097; na = n mod 146097;
          n100 = na div 36524; nb = na mod 36524;
          n4 = nb div 1461; nc = nb mod 1461;
          n1 = nc div 365; nd = nc mod 365;
          year = n400 * 400 + 1 + n100 * 100 + n4 * 4 + n1
      in if n1 = 4 \<or> n100 = 4 then (year - 1, 12, 31)
         else
           let leapyear = (n1 = 3 \<and> (n4 \<noteq> 24 \<or> n100 = 3));
               month = (nd + 50) div 32;
               preceding = DAYS_BEFORE_MONTH ! nat month + (if month > 2 \<and> leapyear then 1 else 0)
           in if preceding > nd
              then (year, month - 1,
                    nd - (preceding - (DAYS_IN_MONTH ! nat (month - 1) +
                                       (if month - 1 = 2 \<and> leapyear then 1 else 0))) + 1)
              else (year, month, nd - preceding + 1))"

text \<open>\<^verbatim>\<open>"%0wd" % n\<close> for a non-negative \<open>n\<close>.\<close>

definition pad :: "nat \<Rightarrow> int \<Rightarrow> string" where
  "pad w n = replicate (w - length (str_nat (nat n))) (CHR ''0'') @ str_nat (nat n)"

definition US_PER_SECOND :: int where
  "US_PER_SECOND = 1000000"

definition US_PER_DAY :: int where
  "US_PER_DAY = 86400 * US_PER_SECOND"

definition microsecond :: "datetime \<Rightarrow> int" where
  "microsecond d = d mod US_PER_SECOND"

definition isoformat_date :: "datetime \<Rightarrow> string" where
  "isoformat_date d =
     (case ord2ymd (d div US_PER_DAY + 1) of
        (y, m, dd) \<Rightarrow> pad 4 y @ ''-'' @ pad 2 m @ ''-'' @ pad 2 dd)"

definition isoformat_time :: "datetime \<Rightarrow> string" where
  "isoformat_time d =
     (let s = (d mod US_PER_DAY) div US_PER_SECOND
      in pad 2 (s div 3600) @ '':'' @ pad 2 (s div 60 mod 60) @ '':'' @ pad 2 (s mod 60) @
         (if microsecond d \<noteq> 0 then ''.'' @ pad 6 (microsecond d) else []))"

definition isoformat :: "datetime \<Rightarrow> string" where
  "isoformat d = isoformat_date d @ ''T'' @ isoformat_time d"

text \<open>
  \<^verbatim>\<open>date + dt.timedelta(seconds=1)\<close>: the last representable datetime is
  9999-12-31T23:59:59.999999, beyond it the addition raises.
\<close>

definition MAX_DATETIME :: int where
  "MAX_DATETIME = 3652059 * US_PER_DAY"

definition add_second :: "datetime \<Rightarrow> error + datetime" where
  "add_second d = (if d + US_PER_SECOND < MAX_DATETIME then Inr (d + US_PER_SECOND) else Inl OverflowError)"

subsection \<open>Requests\<close>

text \<open>
  A request is the nested dictionary that \<^verbatim>\<open>sentinelhub_request.body\<close> builds and
  that is sent as JSON. A dictionary keeps the order of insertion; assigning to a
  key that is present keeps its place.
\<close>

datatype json =
    JNull
  | JBool bool
  | JInt int
  | JReal real
  | JStr string
  | JList "json list"
  | JDict "(string \<times> json) list"

fun assign :: "string \<Rightarrow> json \<Rightarrow> (string \<times> json) list \<Rightarrow> (string \<times> json) list" where
  "assign k v [] = [(k, v)]"
| "assign k v (p # ps) = (if fst p = k then (k, v) # ps else p # assign k v ps)"

text \<open>\<^verbatim>\<open>obj[key]\<close> and \<^verbatim>\<open>obj[key] = value\<close> with a string key.\<close>

fun getitem :: "json \<Rightarrow> string \<Rightarrow> error + json" where
  "getitem (JDict kvs) k = (case map_of kvs k of Some v \<Rightarrow> Inr v | None \<Rightarrow> Inl (KeyError k))"
| "getitem (JList xs) k = Inl (TypeError ''list indices must be integers or slices, not str'')"
| "getitem (JStr s) k = Inl (TypeError ''string indices must be integers'')"
| "getitem _ k = Inl (TypeError ''object is not subscriptable'')"

fun setitem :: "json \<Rightarrow> string \<Rightarrow> json \<Rightarrow> error + json" where
  "setitem (JDict kvs) k v = Inr (JDict (assign k v kvs))"
| "setitem (JList xs) k v = Inl (TypeError ''list indices must be integers or slices, not str'')"
| "setitem _ k v = Inl (TypeError ''object does not support item assignment'')"

text \<open>\<^verbatim>\<open>int(x)\<close> of a float: the fraction is cut off, towards zero.\<close>

definition py_int :: "real \<Rightarrow> int" where
  "py_int x = (if 0 \<le> x then \<lfloor>x\<rfloor> else \<lceil>x\<rceil>)"

text \<open>
  The body of the loop of \<^verbatim>\<open>request_from_date\<close> on one element \<open>data\<close>; the
  assignments go through to the objects inside \<open>data\<close>.
\<close>

definition set_time_range :: "string \<Rightarrow> string \<Rightarrow> real \<Rightarrow> json \<Rightarrow> error + json" where
  "set_time_range time_from time_to mcc data =
     (case getitem data ''dataFilter'' of
        Inl e \<Rightarrow> Inl e
      | Inr data_filter \<Rightarrow>
     (case getitem data_filter ''timeRange'' of
        Inl e \<Rightarrow> Inl e
      | Inr time_range \<Rightarrow>
     (case setitem time_range ''from'' (JStr time_from) of
        Inl e \<Rightarrow> Inl e
      | Inr time_range1 \<Rightarrow>
     (case setitem time_range1 ''to'' (JStr time_to) of
        Inl e \<Rightarrow> Inl e
      | Inr time_range2 \<Rightarrow>
     (case setitem data_filter ''timeRange'' time_range2 of
        Inl e \<Rightarrow> Inl e
      | Inr data_filter1 \<Rightarrow>
     (case setitem data_filter1 ''maxCloudCoverage'' (JInt (py_int (mcc * 100))) of
        Inl e \<Rightarrow> Inl e
      | Inr data_filter2 \<Rightarrow> setitem data ''dataFilter'' data_filter2))))))"

fun for_each :: "('a \<Rightarrow> error + 'b) \<Rightarrow> 'a list \<Rightarrow> error + 'b list" where
  "for_each f [] = Inr []"
| "for_each f (x # xs) =
     (case f x of
        Inl e \<Rightarrow> Inl e
      | Inr y \<Rightarrow> (case for_each f xs of Inl e \<Rightarrow> Inl e | Inr ys \<Rightarrow> Inr (y # ys)))"

text \<open>
  What \<^verbatim>\<open>for data in obj\<close> visits: the elements of a list, the keys of a
  dictionary, the characters of a string.
\<close>

fun iterate :: "json \<Rightarrow> error + json list" where
  "iterate (JList xs) = Inr xs"
| "iterate (JDict kvs) = Inr (map (\<lambda>kv. JStr (fst kv)) kvs)"
| "iterate (JStr s) = Inr (map (\<lambda>c. JStr [c]) s)"
| "iterate _ = Inl (TypeError ''object is not iterable'')"

text \<open>
  \<^verbatim>\<open>request_from_date\<close>. The result is the copy; only the elements of a list are
  objects that the loop can change, so the copy differs from the template in
  \<^verbatim>\<open>request['input']['data']\<close> alone.
\<close>

definition request_from_date :: "json \<Rightarrow> datetime \<Rightarrow> real \<Rightarrow> error + json" where
  "request_from_date request date mcc =
     (case add_second date of
        Inl e \<Rightarrow> Inl e
      | Inr date_to \<Rightarrow>
     (let time_from = isoformat date @ ''Z'';
          time_to = isoformat date_to @ ''Z''
      in
     (case getitem request ''input'' of
        Inl e \<Rightarrow> Inl e
      | Inr inp \<Rightarrow>
     (case getitem inp ''data'' of
        Inl e \<Rightarrow> Inl e
      | Inr data_list \<Rightarrow>
     (case iterate data_list of
        Inl e \<Rightarrow> Inl e
      | Inr elems \<Rightarrow>
     (case for_each (set_time_range time_from time_to mcc) elems of
        Inl e \<Rightarrow> Inl e
      | Inr elems' \<Rightarrow>
          (case data_list of
             JList _ \<Rightarrow>
               (case setitem inp ''data'' (JList elems') of
                  Inl e \<Rightarrow> Inl e
                | Inr inp' \<Rightarrow> setitem request ''input'' inp')
           | _ \<Rightarrow> Inr request)))))))"

subsection \<open>Arrays\<close>

text \<open>
  A numpy array is its shape and its elements in row-major order; a well-formed
  array has as many elements as the product of its shape.
\<close>

record 'a ndarray =
  shape :: "nat list"
  elems :: "'a list"

definition wf_array :: "'a ndarray \<Rightarrow> bool" where
  "wf_array a = (length (elems a) = prod_list (shape a))"

text \<open>\<^verbatim>\<open>np.atleast_3d\<close>.\<close>

definition atleast_3d :: "'a ndarray \<Rightarrow> 'a ndarray" where
  "atleast_3d a =
     (case shape a of
        [] \<Rightarrow> a\<lparr>shape := [1, 1, 1]\<rparr>
      | [n] \<Rightarrow> a\<lparr>shape := [1, n, 1]\<rparr>
      | [m, n] \<Rightarrow> a\<lparr>shape := [m, n, 1]\<rparr>
      | _ \<Rightarrow> a)"

text \<open>\<^verbatim>\<open>a[..., idx]\<close> with a non-negative index: one position of the last axis.\<close>

definition index_last :: "'a ndarray \<Rightarrow> nat \<Rightarrow> error + 'a ndarray" where
  "index_last a idx =
     (if shape a = [] then Inl (IndexError ''too many indices for array'')
      else
        let c = last (shape a); outer = butlast (shape a)
        in if idx < c
           then Inr \<lparr>shape = outer, elems = map (\<lambda>r. elems a ! (r * c + idx)) [0..<prod_list outer]\<rparr>
           else Inl (IndexError ''index is out of bounds for axis''))"

text \<open>\<^verbatim>\<open>a[..., slice(k)]\<close>: the first \<open>k\<close> positions of the last axis, or all of it.\<close>

definition slice_last :: "'a ndarray \<Rightarrow> nat \<Rightarrow> error + 'a ndarray" where
  "slice_last a k =
     (if shape a = [] then Inl (IndexError ''too many indices for array'')
      else
        let c = last (shape a); outer = butlast (shape a); w = min k c
        in Inr \<lparr>shape = outer @ [w],
                elems = concat (map (\<lambda>r. map (\<lambda>j. elems a ! (r * c + j)) [0..<w]) [0..<prod_list outer])\<rparr>)"

definition map_array :: "('a \<Rightarrow> 'b) \<Rightarrow> 'a ndarray \<Rightarrow> 'b ndarray" where
  "map_array f a = \<lparr>shape = shape a, elems = map f (elems a)\<rparr>"

text \<open>
  \<^verbatim>\<open>np.asarray\<close> of a list of arrays: arrays of one shape are stacked along a new
  first axis; arrays of different shapes are refused.
\<close>

definition asarray :: "'a ndarray list \<Rightarrow> error + 'a ndarray" where
  "asarray as =
     (case as of
        [] \<Rightarrow> Inr \<lparr>shape = [0], elems = []\<rparr>
      | a # rest \<Rightarrow>
          if list_all (\<lambda>b. shape b = shape a) rest
          then Inr \<lparr>shape = length as # shape a, elems = concat (map elems as)\<rparr>
          else Inl (ValueError ''setting an array element with a sequence''))"

text \<open>
  \<^verbatim>\<open>a.reshape(*newshape)\<close>: the elements stay in their order; one dimension
  may be given as \<open>-1\<close> and is then computed.
\<close>

definition reshape :: "int list \<Rightarrow> 'a ndarray \<Rightarrow> error + 'a ndarray" where
  "reshape newshape a =
     (let total = int (length (elems a));
          unknown = length (filter (\<lambda>d. d = -1) newshape)
      in if list_ex (\<lambda>d. d < -1) newshape then Inl (ValueError ''negative dimensions not allowed'')
         else if 1 < unknown then Inl (ValueError ''can only specify one unknown dimension'')
         else if unknown = 1 then
           (let known = prod_list (filter (\<lambda>d. d \<noteq> -1) newshape)
            in if known = 0 \<or> total mod known \<noteq> 0
               then Inl (ValueError ''cannot reshape array'')
               else Inr \<lparr>shape = map (\<lambda>d. nat (if d = -1 then total div known else d)) newshape,
                        elems = elems a\<rparr>)
         else if prod_list newshape = total
           then Inr \<lparr>shape = map nat newshape, elems = elems a\<rparr>
           else Inl (ValueError ''cannot reshape array''))"

subsection \<open>Collaborators and the output container\<close>

type_synonym image = "16 word ndarray"

type_synonym userdata = "(string \<times> real) list"

record download_result =
  default_tif :: image
  userdata_json :: "userdata option"

record download_request =
  post_values :: json
  url :: string
  data_folder :: "string option"
  hash_save :: bool

datatype event =
    WfsQuery "bbox option" "time_interval option" data_source real
  | Download "download_request list"

record env =
  wfs_get_dates :: "bbox option \<Rightarrow> time_interval option \<Rightarrow> data_source \<Rightarrow> real \<Rightarrow> error + datetime list"
  shr_body :: "string \<Rightarrow> real list \<Rightarrow> string \<Rightarrow> int \<Rightarrow> int \<Rightarrow> string \<Rightarrow> json"
  sh_processing_api_url :: string
  download :: "download_request list \<Rightarrow> error + download_result list"
  f32_mul :: "real \<Rightarrow> real \<Rightarrow> real"
  np_round4 :: "real \<Rightarrow> real"

datatype array = BoolArray "bool ndarray" | FloatArray "real ndarray"

datatype meta_value =
    MStr string
  | MInt int
  | MReal real
  | MInterval "time_interval option"
  | MDelta timedelta

record eopatch =
  timestamp :: "datetime list"
  patch_bbox :: "bbox option"
  features :: "feature \<Rightarrow> array option"
  meta_info :: "string \<Rightarrow> meta_value option"

definition EOPatch :: eopatch where
  "EOPatch = \<lparr>timestamp = [], patch_bbox = None, features = (\<lambda>_. None), meta_info = (\<lambda>_. None)\<rparr>"

subsection \<open>Execution\<close>

definition bbox_list :: "bbox \<Rightarrow> real list" where
  "bbox_list b = [min_x b, min_y b, max_x b, max_y b]"

text \<open>\<^verbatim>\<open>size_from_resolution\<close>.\<close>

definition size_from_resolution :: "bbox option \<Rightarrow> real \<Rightarrow> error + int \<times> int" where
  "size_from_resolution b res =
     (case b of
        None \<Rightarrow> Inl (TypeError ''NoneType object is not iterable'')
      | Some bb \<Rightarrow>
          if res = 0 then Inl ZeroDivisionError
          else Inr (py_int ((bbox_list bb ! 2 - bbox_list bb ! 0) / res),
                    py_int ((bbox_list bb ! 3 - bbox_list bb ! 1) / res)))"

text \<open>
  The first statements of \<^verbatim>\<open>execute\<close>, up to the request template. With neither
  a size nor a resolution no branch assigns \<^verbatim>\<open>size_x\<close>; \<^verbatim>\<open>None\<close> is
  \<open>None\<close> here, and reading the variable raises. The arguments of
  \<^verbatim>\<open>shr.body\<close> are evaluated in their order: the bounds (which read
  \<^verbatim>\<open>bbox.crs\<close>), the data, the output (which reads \<^verbatim>\<open>size_x\<close>), the script.
\<close>

definition resolve_size :: "config \<Rightarrow> bbox option \<Rightarrow> error + (int \<times> int) option" where
  "resolve_size cfg b =
     (case size cfg of
        Some (sx, sy) \<Rightarrow> Inr (Some (sx, sy))
      | None \<Rightarrow>
          (case resolution cfg of
             Some res \<Rightarrow> (case size_from_resolution b res of Inl e \<Rightarrow> Inl e | Inr s \<Rightarrow> Inr (Some s))
           | None \<Rightarrow> Inr None))"

definition build_request :: "env \<Rightarrow> config \<Rightarrow> bbox option \<Rightarrow> error + (int \<times> int) \<times> json" where
  "build_request ev cfg b =
     (case resolve_size cfg b of
        Inl e \<Rightarrow> Inl e
      | Inr sz \<Rightarrow>
     (case b of
        None \<Rightarrow> Inl (AttributeError ''NoneType object has no attribute crs'')
      | Some bb \<Rightarrow>
     (case sz of
        None \<Rightarrow> Inl (UnboundLocalError ''local variable size_x referenced before assignment'')
      | Some (size_x, size_y) \<Rightarrow>
     (case generate_evalscript cfg of
        Inl e \<Rightarrow> Inl e
      | Inr script \<Rightarrow>
          Inr ((size_x, size_y),
               shr_body ev (opengis_string bb) (bbox_list bb) (api_identifier (data_source cfg))
                 size_x size_y script)))))"

text \<open>One \<^verbatim>\<open>DownloadRequest\<close> for each date; \<^verbatim>\<open>bool('')\<close> is false.\<close>

definition download_request_of :: "env \<Rightarrow> config \<Rightarrow> json \<Rightarrow> download_request" where
  "download_request_of ev cfg payload =
     \<lparr>post_values = payload, url = sh_processing_api_url ev, data_folder = cache_folder cfg,
      hash_save = (case cache_folder cfg of None \<Rightarrow> False | Some f \<Rightarrow> f \<noteq> [])\<rparr>"

definition build_requests :: "env \<Rightarrow> config \<Rightarrow> json \<Rightarrow> datetime list \<Rightarrow> error + download_request list" where
  "build_requests ev cfg request dates =
     for_each (\<lambda>date. case request_from_date request date (maxcc cfg) of
                         Inl e \<Rightarrow> Inl e
                       | Inr payload \<Rightarrow> Inr (download_request_of ev cfg payload)) dates"

text \<open>
  \<^verbatim>\<open>meta.get('norm_factor', 0) if meta else 0\<close>: an absent and an empty dictionary
  are both falsy.
\<close>

definition norm_factor_of :: "userdata option \<Rightarrow> real" where
  "norm_factor_of meta =
     (case meta of
        None \<Rightarrow> 0
      | Some m \<Rightarrow> if m = [] then 0 else (case map_of m ''norm_factor'' of Some f \<Rightarrow> f | None \<Rightarrow> 0))"

definition decode :: "download_result list \<Rightarrow> (image \<times> real) list" where
  "decode results = map (\<lambda>r. (default_tif r, norm_factor_of (userdata_json r))) results"

text \<open>\<^verbatim>\<open>list.index\<close>: the first position of the value.\<close>

fun index_of :: "'a list \<Rightarrow> 'a \<Rightarrow> error + nat" where
  "index_of [] x = Inl (ValueError ''value is not in list'')"
| "index_of (y # ys) x =
     (if y = x then Inr 0 else (case index_of ys x of Inl e \<Rightarrow> Inl e | Inr i \<Rightarrow> Inr (Suc i)))"

text \<open>The first loop of the extraction: one boolean feature for each additional band.\<close>

definition mask_array :: "config \<Rightarrow> (image \<times> real) list \<Rightarrow> int list \<Rightarrow> string \<Rightarrow> error + bool ndarray" where
  "mask_array cfg images shp f_name =
     (case index_of (all_bands cfg) f_name of
        Inl e \<Rightarrow> Inl e
      | Inr idx \<Rightarrow>
     (case for_each (\<lambda>a. index_last a idx) (map (\<lambda>(img, nf). atleast_3d img) images) of
        Inl e \<Rightarrow> Inl e
      | Inr feature_arrays \<Rightarrow>
     (case asarray feature_arrays of
        Inl e \<Rightarrow> Inl e
      | Inr stacked \<Rightarrow>
     (case reshape (shp @ [1]) stacked of
        Inl e \<Rightarrow> Inl e
      | Inr r \<Rightarrow> Inr (map_array (\<lambda>x. x \<noteq> 0) r)))))"

fun extract_additional :: "config \<Rightarrow> (image \<times> real) list \<Rightarrow> int list \<Rightarrow> feature list \<Rightarrow> eopatch \<Rightarrow> error + eopatch" where
  "extract_additional cfg images shp [] patch = Inr patch"
| "extract_additional cfg images shp ((f_type, f_name) # rest) patch =
     (case mask_array cfg images shp f_name of
        Inl e \<Rightarrow> Inl e
      | Inr arr \<Rightarrow>
          extract_additional cfg images shp rest
            (patch\<lparr>features := (features patch)((f_type, f_name) \<mapsto> BoolArray arr)\<rparr>))"

text \<open>
  The second part: the leading channels as 32-bit floats (exact for 16-bit
  samples) times the normalisation factor, rounded.
\<close>

definition bands_array :: "env \<Rightarrow> config \<Rightarrow> (image \<times> real) list \<Rightarrow> int list \<Rightarrow> error + real ndarray" where
  "bands_array ev cfg images shp =
     (let img_bands = length (bands cfg)
      in
     (case for_each (\<lambda>(img, nf).
             case slice_last img img_bands of
               Inl e \<Rightarrow> Inl e
             | Inr s \<Rightarrow> Inr (map_array (\<lambda>x. f32_mul ev (real (unat x)) nf) s)) images of
        Inl e \<Rightarrow> Inl e
      | Inr img_arrays \<Rightarrow>
     (case asarray img_arrays of
        Inl e \<Rightarrow> Inl e
      | Inr stacked \<Rightarrow>
     (case reshape (shp @ [int img_bands]) stacked of
        Inl e \<Rightarrow> Inl e
      | Inr r \<Rightarrow> Inr (map_array (np_round4 ev) r)))))"

definition extract_bands :: "env \<Rightarrow> config \<Rightarrow> (image \<times> real) list \<Rightarrow> int list \<Rightarrow> eopatch \<Rightarrow> error + eopatch" where
  "extract_bands ev cfg images shp patch =
     (if bands cfg \<noteq> [] then
        (case bands_array ev cfg images shp of
           Inl e \<Rightarrow> Inl e
         | Inr arr \<Rightarrow>
             (case bands_feature cfg of
                None \<Rightarrow> Inl (TypeError ''NoneType is not a feature'')
              | Some f \<Rightarrow> Inr (patch\<lparr>features := (features patch)(f \<mapsto> FloatArray arr)\<rparr>)))
      else Inr patch)"

text \<open>Everything of \<^verbatim>\<open>execute\<close> after the download.\<close>

definition assemble ::
  "env \<Rightarrow> config \<Rightarrow> eopatch option \<Rightarrow> bbox option \<Rightarrow> time_interval option \<Rightarrow>
   int \<times> int \<Rightarrow> datetime list \<Rightarrow> download_result list \<Rightarrow> error + eopatch" where
  "assemble ev cfg eop b ti sz dates results =
     (let images = decode results;
          patch0 = (case eop of None \<Rightarrow> EOPatch | Some p \<Rightarrow> p);
          patch1 = patch0\<lparr>timestamp := dates, patch_bbox := b\<rparr>;
          shp = [int (length dates), snd sz, fst sz]
      in
     (case extract_additional cfg images shp (additional_data cfg) patch1 of
        Inl e \<Rightarrow> Inl e
      | Inr patch2 \<Rightarrow>
     (case extract_bands ev cfg images shp patch2 of
        Inl e \<Rightarrow> Inl e
      | Inr patch3 \<Rightarrow>
          Inr (patch3\<lparr>meta_info := (meta_info patch3)
                 (''service_type'' \<mapsto> MStr ''processing'',
                  ''size_x'' \<mapsto> MInt (fst sz),
                  ''size_y'' \<mapsto> MInt (snd sz),
                  ''maxcc'' \<mapsto> MReal (maxcc cfg),
                  ''time_interval'' \<mapsto> MInterval ti,
                  ''time_difference'' \<mapsto> MDelta (time_difference cfg))\<rparr>))))"

text \<open>
  \<^verbatim>\<open>execute\<close>: the result or the exception, and the calls made to the two
  network collaborators, in their order.
\<close>

definition execute ::
  "env \<Rightarrow> config \<Rightarrow> eopatch option \<Rightarrow> bbox option \<Rightarrow> time_interval option \<Rightarrow>
   (error + eopatch) \<times> event list" where
  "execute ev cfg eop b ti =
     (case build_request ev cfg b of
        Inl e \<Rightarrow> (Inl e, [])
      | Inr (sz, request) \<Rightarrow>
     (let query = WfsQuery b ti (data_source cfg) (maxcc cfg)
      in
     (case wfs_get_dates ev b ti (data_source cfg) (maxcc cfg) of
        Inl e \<Rightarrow> (Inl e, [query])
      | Inr wfs_dates \<Rightarrow>
     (case get_dates cfg wfs_dates ti of
        Inl e \<Rightarrow> (Inl e, [query])
      | Inr dates \<Rightarrow>
     (case build_requests ev cfg request dates of
        Inl e \<Rightarrow> (Inl e, [query])
      | Inr requests \<Rightarrow>
     (case download ev requests of
        Inl e \<Rightarrow> (Inl e, [query, Download requests])
      | Inr results \<Rightarrow>
          (assemble ev cfg eop b ti sz dates results, [query, Download requests])))))))"

subsection \<open>The date selection as the specification words it\<close>



subsection \<open>Auxiliary functions of the proofs\<close>



subsection \<open>Example inputs\<close>

definition example_source :: data_source where
  "example_source = \<lparr>api_identifier = ''S2L1C'', ds_bands = [''B01'', ''B02'', ''B03'']\<rparr>"

definition example_config :: "timedelta \<Rightarrow> config" where
  "example_config t =
     init example_source (Some (2, 2)) None (Some (DATA, ''BANDS'')) (Some [''B04'', ''B08''])
       (Some [(MASK, ''CLM'')]) 1 t None 5"

text \<open>
  An environment for the examples: the request template that
  \<^verbatim>\<open>sentinelhub_request.body\<close> builds for one data source, a feature service that
  answers with the given dates, a download client that answers with the given
  results, and exact arithmetic for the float operations.
\<close>

definition example_body :: "string \<Rightarrow> real list \<Rightarrow> string \<Rightarrow> int \<Rightarrow> int \<Rightarrow> string \<Rightarrow> json" where
  "example_body crs_name box data_type size_x size_y script =
     JDict [(''input'',
             JDict [(''bounds'', JDict [(''properties'', JDict [(''crs'', JStr crs_name)]),
                                        (''bbox'', JList (map JReal box))]),
                    (''data'',
                     JList [JDict [(''type'', JStr data_type),
                                   (''dataFilter'',
                                    JDict [(''timeRange'',
                                            JDict [(''from'', JStr ''''), (''to'', JStr '''')])])]])]),
            (''evalscript'', JStr script),
            (''output'', JDict [(''width'', JInt size_x), (''height'', JInt size_y)])]"

definition example_env :: "datetime list \<Rightarrow> download_result list \<Rightarrow> env" where
  "example_env ds results =
     \<lparr>wfs_get_dates = (\<lambda>b ti src mcc. Inr ds),
      shr_body = example_body,
      sh_processing_api_url = ''https://services.sentinel-hub.com/api/v1/process'',
      download = (\<lambda>requests. Inr results),
      f32_mul = (\<lambda>x y. x * y),
      np_round4 = (\<lambda>x. of_int (round (x * 10000)) / 10000)\<rparr>"

definition example_bbox :: bbox where
  "example_bbox = \<lparr>min_x = 0, min_y = 0, max_x = 20, max_y = 20,
                    opengis_string = ''http://www.opengis.net/def/crs/EPSG/0/32633''\<rparr>"

definition example_interval :: time_interval where
  "example_interval = (''2020-01-01'', ''2020-01-31'')"

definition array_shape :: "array \<Rightarrow> nat list" where
  "array_shape arr = (case arr of BoolArray a \<Rightarrow> shape a | FloatArray a \<Rightarrow> shape a)"

text \<open>2020-01-01T10:23:59, an image of two rows, two columns and three channels.\<close>

definition example_date :: datetime where
  "example_date = (737425 - 1) * US_PER_DAY + (10 * 3600 + 23 * 60 + 59) * US_PER_SECOND"

definition example_image :: image where
  "example_image = \<lparr>shape = [2, 2, 3], elems = [1, 2, 0, 3, 4, 1, 5, 6, 0, 7, 8, 9]\<rparr>"

definition example_result :: download_result where
  "example_result = \<lparr>default_tif = example_image, userdata_json = Some [(''norm_factor'', 1 / 10000)]\<rparr>"

definition all_dated :: "nat \<Rightarrow> eopatch \<Rightarrow> bool" where
  "all_dated n p = (\<forall>f arr. features p f = Some arr \<longrightarrow> array_shape arr ! 0 = n)"

definition example_config_masks :: config where
  "example_config_masks =
     init example_source (Some (2, 2)) None None (Some [''B04'', ''B08''])
       (Some [(MASK, ''CLM'')]) 1 0 None 5"


definition example_template :: json where
  "example_template =
     example_body ''http://www.opengis.net/def/crs/EPSG/0/32633'' [0, 0, 20, 20] ''S2L1C'' 2 2 ''script''"

text \<open>
  The shape of a timestamp at second precision: every digit is replaced by \<open>d\<close>,
  every other character stays.
\<close>

definition char_class :: "char \<Rightarrow> char" where
  "char_class c = (if c \<in> set ''0123456789'' then CHR ''d'' else c)"

definition example_payload :: json where
  "example_payload =
     JDict
       [(''input'',
         JDict
          [(''bounds'',
            JDict
             [(''properties'',
               JDict [(''crs'', JStr ''http://www.opengis.net/def/crs/EPSG/0/32633'')]),
              (''bbox'', JList [JReal 0, JReal 0, JReal 20, JReal 20])]),
           (''data'',
            JList
             [JDict
               [(''type'', JStr ''S2L1C''),
                (''dataFilter'',
                 JDict
                  [(''timeRange'',
                    JDict
                     [(''from'', JStr ''2020-01-01T10:23:59.500000Z''),
                      (''to'', JStr ''2020-01-01T10:24:00.500000Z'')]),
                   (''maxCloudCoverage'', JInt 93)])]])]),
        (''evalscript'', JStr ''script''),
        (''output'', JDict [(''width'', JInt 2), (''height'', JInt 2)])]"

section \<open>Properties\<close>

subsection \<open>Date selection\<close>


















subsection \<open>The generated script\<close>

lemma emit_Nil: "emit [] r = r"
  by (cases r) simp_all

lemma emit_emit: "emit a (emit b r) = emit (a @ b) r"
  by (cases r) simp_all

lemma emit_eq_Inr: "emit a x = Inr r \<longleftrightarrow> (\<exists>t. x = Inr t \<and> r = a @ t)"
  by (cases x) auto

text \<open>
  A piece of a template that the scanner reads from text mode to the end without an
  error can be formatted on its own: what follows it is scanned from text mode.
\<close>

lemma fmt_append_mode:
  "fmt m [] kw s = Inr r \<Longrightarrow> fmt m [] kw (s @ cs) = emit r (fmt Text [] kw cs)"
proof (induction m "[] :: string list" kw s arbitrary: r rule: fmt.induct)
  case (1 kw)
  then show ?case by (simp add: emit_Nil)
next
  case (5 kw c cs')
  then show ?case by (auto simp: emit_eq_Inr emit_emit split: if_splits)
next
  case (6 kw c cs')
  then show ?case by (auto simp: emit_eq_Inr emit_emit split: if_splits)
next
  case (7 kw c cs')
  then show ?case by (auto simp: emit_eq_Inr emit_emit split: if_splits)
next
  case (8 nm kw c cs')
  then show ?case by (auto simp: emit_eq_Inr emit_emit split: if_splits option.splits)
qed simp_all

lemma fmt_append:
  "fmt Text [] kw s = Inr r \<Longrightarrow> fmt Text [] kw (s @ cs) = emit r (fmt Text [] kw cs)"
  by (rule fmt_append_mode)

lemma format_sample: "format ''sample.{}'' [band] [] = Inr (''sample.'' @ band)"
  by (simp add: format_def)

lemma sample_names_eq: "sample_names bs = Inr (map ((@) ''sample.'') bs)"
  by (induction bs) (simp_all add: format_sample)

lemma format_brackets: "format ''[{}]'' [s] [] = Inr (''['' @ s @ '']'')"
  by (simp add: format_def)

text \<open>The template, formatted line by line.\<close>

lemma format_evalscript_template:
  "format evalscript_template [] [(''bands'', b), (''num_bands'', n), (''samples'', s)] =
     Inr (''\<newline>'' @
          ''            function setup() {\<newline>'' @
          ''                return {\<newline>'' @
          ''                    input: [{\<newline>'' @
          ''                        bands: '' @ b @ '',\<newline>'' @
          ''                        units: \"DN\"\<newline>'' @
          ''                    }],\<newline>'' @
          ''                    output: {\<newline>'' @
          ''                        id:\"default\",\<newline>'' @
          ''                        bands: '' @ n @ '',\<newline>'' @
          ''                        sampleType: SampleType.UINT16\<newline>'' @
          ''                    }\<newline>'' @
          ''                }\<newline>'' @
          ''            }\<newline>'' @
          ''\<newline>'' @
          ''            function updateOutputMetadata(scenes, inputMetadata, outputMetadata) {\<newline>'' @
          ''                outputMetadata.userData = { \"norm_factor\":  inputMetadata.normalizationFactor }\<newline>'' @
          ''            }\<newline>'' @
          ''\<newline>'' @
          ''            function evaluatePixel(sample) {\<newline>'' @
          ''                return '' @ s @ ''\<newline>'' @
          ''            }\<newline>'' @
          ''        '')"
proof -
  let ?kw = "[(''bands'', b), (''num_bands'', n), (''samples'', s)]"
  have l0: "fmt Text [] ?kw ''\<newline>'' =
      Inr (''\<newline>'')"
    by simp
  have l1: "fmt Text [] ?kw ''            function setup() {{\<newline>'' =
      Inr (''            function setup() {\<newline>'')"
    by simp
  have l2: "fmt Text [] ?kw ''                return {{\<newline>'' =
      Inr (''                return {\<newline>'')"
    by simp
  have l3: "fmt Text [] ?kw ''                    input: [{{\<newline>'' =
      Inr (''                    input: [{\<newline>'')"
    by simp
  have l4: "fmt Text [] ?kw ''                        bands: {bands},\<newline>'' =
      Inr (''                        bands: '' @ b @ '',\<newline>'')"
    by simp
  have l5: "fmt Text [] ?kw ''                        units: \"DN\"\<newline>'' =
      Inr (''                        units: \"DN\"\<newline>'')"
    by simp
  have l6: "fmt Text [] ?kw ''                    }}],\<newline>'' =
      Inr (''                    }],\<newline>'')"
    by simp
  have l7: "fmt Text [] ?kw ''                    output: {{\<newline>'' =
      Inr (''                    output: {\<newline>'')"
    by simp
  have l8: "fmt Text [] ?kw ''                        id:\"default\",\<newline>'' =
      Inr (''                        id:\"default\",\<newline>'')"
    by simp
  have l9: "fmt Text [] ?kw ''                        bands: {num_bands},\<newline>'' =
      Inr (''                        bands: '' @ n @ '',\<newline>'')"
    by simp
  have l10: "fmt Text [] ?kw ''                        sampleType: SampleType.UINT16\<newline>'' =
      Inr (''                        sampleType: SampleType.UINT16\<newline>'')"
    by simp
  have l11: "fmt Text [] ?kw ''                    }}\<newline>'' =
      Inr (''                    }\<newline>'')"
    by simp
  have l12: "fmt Text [] ?kw ''                }}\<newline>'' =
      Inr (''                }\<newline>'')"
    by simp
  have l13: "fmt Text [] ?kw ''            }}\<newline>'' =
      Inr (''            }\<newline>'')"
    by simp
  have l14: "fmt Text [] ?kw ''            function updateOutputMetadata(scenes, inputMetadata, outputMetadata) {{\<newline>'' =
      Inr (''            function updateOutputMetadata(scenes, inputMetadata, outputMetadata) {\<newline>'')"
    by simp
  have l15: "fmt Text [] ?kw ''                outputMetadata.userData = {{ \"norm_factor\":  inputMetadata.normalizationFactor }}\<newline>'' =
      Inr (''                outputMetadata.userData = { \"norm_factor\":  inputMetadata.normalizationFactor }\<newline>'')"
    by simp
  have l16: "fmt Text [] ?kw ''            function evaluatePixel(sample) {{\<newline>'' =
      Inr (''            function evaluatePixel(sample) {\<newline>'')"
    by simp
  have l17: "fmt Text [] ?kw ''                return {samples}\<newline>'' =
      Inr (''                return '' @ s @ ''\<newline>'')"
    by simp
  have l18: "fmt Text [] ?kw ''        '' =
      Inr (''        '')"
    by simp
  show ?thesis
    unfolding format_def evalscript_template_def
    by (simp only: fmt_append[OF l0] fmt_append[OF l1] fmt_append[OF l2] fmt_append[OF l3] fmt_append[OF l4] fmt_append[OF l5] fmt_append[OF l6] fmt_append[OF l7] fmt_append[OF l8] fmt_append[OF l9] fmt_append[OF l10] fmt_append[OF l11] fmt_append[OF l12] fmt_append[OF l13] fmt_append[OF l14] fmt_append[OF l15] fmt_append[OF l16] fmt_append[OF l17] fmt_append[OF l18]
        l0 l1 l2 l3 l4 l5 l6 l7 l8 l9 l10 l11 l12 l13 l14 l15 l16 l17 l18 emit.simps append_assoc)
qed

lemma generate_evalscript_text:
  "generate_evalscript cfg =
     Inr (''\<newline>'' @
          ''            function setup() {\<newline>'' @
          ''                return {\<newline>'' @
          ''                    input: [{\<newline>'' @
          ''                        bands: '' @ json_dumps (all_bands cfg) @ '',\<newline>'' @
          ''                        units: \"DN\"\<newline>'' @
          ''                    }],\<newline>'' @
          ''                    output: {\<newline>'' @
          ''                        id:\"default\",\<newline>'' @
          ''                        bands: '' @ str_nat (length (all_bands cfg)) @ '',\<newline>'' @
          ''                        sampleType: SampleType.UINT16\<newline>'' @
          ''                    }\<newline>'' @
          ''                }\<newline>'' @
          ''            }\<newline>'' @
          ''\<newline>'' @
          ''            function updateOutputMetadata(scenes, inputMetadata, outputMetadata) {\<newline>'' @
          ''                outputMetadata.userData = { \"norm_factor\":  inputMetadata.normalizationFactor }\<newline>'' @
          ''            }\<newline>'' @
          ''\<newline>'' @
          ''            function evaluatePixel(sample) {\<newline>'' @
          ''                return '' @ ''['' @ join '', '' (map ((@) ''sample.'') (all_bands cfg)) @ '']'' @ ''\<newline>'' @
          ''            }\<newline>'' @
          ''        '')"
  by (simp add: generate_evalscript_def sample_names_eq format_brackets format_evalscript_template)

lemma generate_evalscript_returns: "\<exists>script. generate_evalscript cfg = Inr script"
  by (simp add: generate_evalscript_text)


subsection \<open>Execution\<close>

lemma get_dates_Nil:
  "get_dates cfg [] ti =
     Inl (ValueError (''No available images for requested time range: '' @ str_time_interval ti))"
  by (simp add: get_dates_def)


lemma get_dates_length: "get_dates cfg wfs_dates ti = Inr dates \<Longrightarrow> dates \<noteq> []"
  by (auto simp: get_dates_def Let_def split: if_splits)

lemma reshape_first_dim:
  "reshape (int n # rest) a = Inr r \<Longrightarrow> shape r ! 0 = n"
  by (auto simp: reshape_def Let_def split: if_splits)

lemma mask_array_first_dim:
  "mask_array cfg images (int n # rest) f_name = Inr arr \<Longrightarrow> shape arr ! 0 = n"
  by (auto simp: mask_array_def map_array_def dest!: reshape_first_dim split: sum.splits)

lemma bands_array_first_dim:
  "bands_array ev cfg images (int n # rest) = Inr arr \<Longrightarrow> shape arr ! 0 = n"
  by (auto simp: bands_array_def map_array_def Let_def dest!: reshape_first_dim split: sum.splits)


lemma extract_additional_frame:
  "extract_additional cfg images shp fs patch = Inr p \<Longrightarrow>
   timestamp p = timestamp patch \<and> patch_bbox p = patch_bbox patch \<and> meta_info p = meta_info patch \<and>
   (\<forall>f. f \<notin> set fs \<longrightarrow> features p f = features patch f)"
proof (induction cfg images shp fs patch rule: extract_additional.induct)
  case (1 cfg images shp patch)
  then show ?case by simp
next
  case (2 cfg images shp f_type f_name rest patch)
  then show ?case by (auto split: sum.splits)
qed

lemma extract_additional_written:
  "extract_additional cfg images (int n # rest_shape) fs patch = Inr p \<Longrightarrow> f \<in> set fs \<Longrightarrow>
   \<exists>arr. features p f = Some (BoolArray arr) \<and> shape arr ! 0 = n"
proof (induction cfg images "int n # rest_shape" fs patch rule: extract_additional.induct)
  case (1 cfg images patch)
  then show ?case by simp
next
  case (2 cfg images f_type f_name rest patch)
  from "2.prems"(1) obtain arr where
    m: "mask_array cfg images (int n # rest_shape) f_name = Inr arr" and
    e: "extract_additional cfg images (int n # rest_shape) rest
          (patch\<lparr>features := (features patch)((f_type, f_name) \<mapsto> BoolArray arr)\<rparr>) = Inr p"
    by (auto split: sum.splits)
  show ?case
  proof (cases "f \<in> set rest")
    case True
    from "2.hyps"[OF m e True] show ?thesis .
  next
    case False
    with "2.prems"(2) have f: "f = (f_type, f_name)" by simp
    from extract_additional_frame[OF e] False
    have "features p f = Some (BoolArray arr)" by (simp add: f)
    with mask_array_first_dim[OF m] show ?thesis by simp
  qed
qed

lemma extract_additional_dated:
  "extract_additional cfg images (int n # rest_shape) fs patch = Inr p \<Longrightarrow>
   all_dated n patch \<Longrightarrow> all_dated n p"
proof (induction cfg images "int n # rest_shape" fs patch rule: extract_additional.induct)
  case (1 cfg images patch)
  then show ?case by simp
next
  case (2 cfg images f_type f_name rest patch)
  from "2.prems"(1) obtain arr where
    m: "mask_array cfg images (int n # rest_shape) f_name = Inr arr" and
    e: "extract_additional cfg images (int n # rest_shape) rest
          (patch\<lparr>features := (features patch)((f_type, f_name) \<mapsto> BoolArray arr)\<rparr>) = Inr p"
    by (auto split: sum.splits)
  have "all_dated n (patch\<lparr>features := (features patch)((f_type, f_name) \<mapsto> BoolArray arr)\<rparr>)"
    using "2.prems"(2) mask_array_first_dim[OF m] by (auto simp: all_dated_def array_shape_def)
  from "2.hyps"[OF m e this] show ?case .
qed

lemma extract_bands_frame:
  "extract_bands ev cfg images shp patch = Inr p \<Longrightarrow>
   timestamp p = timestamp patch \<and> patch_bbox p = patch_bbox patch \<and> meta_info p = meta_info patch \<and>
   (\<forall>f. Some f \<noteq> bands_feature cfg \<longrightarrow> features p f = features patch f) \<and>
   (bands cfg = [] \<longrightarrow> p = patch)"
  by (auto simp: extract_bands_def split: if_splits sum.splits option.splits)

lemma extract_bands_written:
  "extract_bands ev cfg images (int n # rest_shape) patch = Inr p \<Longrightarrow> bands cfg \<noteq> [] \<Longrightarrow>
   \<exists>f arr. bands_feature cfg = Some f \<and> features p f = Some (FloatArray arr) \<and> shape arr ! 0 = n"
  by (auto simp: extract_bands_def dest: bands_array_first_dim split: if_splits sum.splits option.splits)

lemma extract_bands_dated:
  assumes e: "extract_bands ev cfg images (int n # rest_shape) patch = Inr p"
    and d: "all_dated n patch"
  shows "all_dated n p"
proof (cases "bands cfg = []")
  case True
  then show ?thesis using e d by (simp add: extract_bands_def)
next
  case False
  from e False obtain arr f where
    b: "bands_array ev cfg images (int n # rest_shape) = Inr arr" and
    p: "p = patch\<lparr>features := (features patch)(f \<mapsto> FloatArray arr)\<rparr>"
    by (auto simp: extract_bands_def split: sum.splits option.splits)
  from bands_array_first_dim[OF b] d show ?thesis
    by (auto simp: p all_dated_def array_shape_def)
qed

lemma all_dated_EOPatch: "all_dated n (EOPatch\<lparr>timestamp := ds, patch_bbox := b\<rparr>)"
  by (simp add: all_dated_def EOPatch_def)

lemma assemble_result:
  assumes "assemble ev cfg eop b ti sz dates results = Inr p"
  shows "timestamp p = dates \<and> patch_bbox p = b \<and>
    (\<forall>f\<in>set (additional_data cfg). Some f \<noteq> bands_feature cfg \<or> bands cfg = [] \<longrightarrow> (\<exists>arr. features p f = Some (BoolArray arr) \<and> shape arr ! 0 = length dates)) \<and>
    (bands cfg \<noteq> [] \<longrightarrow> (\<exists>f arr. bands_feature cfg = Some f \<and> features p f = Some (FloatArray arr) \<and> shape arr ! 0 = length dates)) \<and>
    (bands cfg = [] \<longrightarrow> (\<forall>f. f \<notin> set (additional_data cfg) \<longrightarrow>
         features p f = features (case eop of None \<Rightarrow> EOPatch | Some q \<Rightarrow> q) f)) \<and>
    (eop = None \<longrightarrow> all_dated (length dates) p)"
proof -
  let ?images = "decode results"
  let ?p0 = "case eop of None \<Rightarrow> EOPatch | Some q \<Rightarrow> q"
  let ?p1 = "?p0\<lparr>timestamp := dates, patch_bbox := b\<rparr>"
  let ?shp = "int (length dates) # [snd sz, fst sz]"
  from assms obtain p2 p3 where
    a: "extract_additional cfg ?images ?shp (additional_data cfg) ?p1 = Inr p2" and
    bb: "extract_bands ev cfg ?images ?shp p2 = Inr p3" and
    p: "features p = features p3" "timestamp p = timestamp p3" "patch_bbox p = patch_bbox p3"
    by (auto simp: assemble_def Let_def split: sum.splits)
  note fa = extract_additional_frame[OF a]
  note fb = extract_bands_frame[OF bb]
  have t: "timestamp p = dates \<and> patch_bbox p = b" using p fa fb by simp
  have m: "\<forall>f\<in>set (additional_data cfg). Some f \<noteq> bands_feature cfg \<or> bands cfg = [] \<longrightarrow> (\<exists>arr. features p f = Some (BoolArray arr) \<and> shape arr ! 0 = length dates)"
  proof (intro ballI impI)
    fix f assume f: "f \<in> set (additional_data cfg)" and d: "Some f \<noteq> bands_feature cfg \<or> bands cfg = []"
    from extract_additional_written[OF a f] obtain arr where
      "features p2 f = Some (BoolArray arr)" "shape arr ! 0 = length dates" by blast
    moreover have "features p3 f = features p2 f" using fb d by (cases f) auto
    ultimately show "\<exists>arr. features p f = Some (BoolArray arr) \<and> shape arr ! 0 = length dates"
      using p by simp
  qed
  have n: "bands cfg \<noteq> [] \<longrightarrow> (\<exists>f arr. bands_feature cfg = Some f \<and> features p f = Some (FloatArray arr) \<and> shape arr ! 0 = length dates)"
    using extract_bands_written[OF bb] p by simp
  have u: "bands cfg = [] \<longrightarrow> (\<forall>f. f \<notin> set (additional_data cfg) \<longrightarrow> features p f = features ?p0 f)"
    using fa fb p by auto
  have d: "eop = None \<longrightarrow> all_dated (length dates) p"
  proof
    assume "eop = None"
    then have "all_dated (length dates) ?p1" by (simp add: all_dated_EOPatch)
    from extract_bands_dated[OF bb extract_additional_dated[OF a this]]
    show "all_dated (length dates) p" using p by (simp add: all_dated_def)
  qed
  from t m n u d show ?thesis by blast
qed

lemma execute_Inr:
  assumes "fst (execute ev cfg eop b ti) = Inr p"
  shows "\<exists>sz request wfs_dates dates requests results.
     build_request ev cfg b = Inr (sz, request) \<and>
     wfs_get_dates ev b ti (data_source cfg) (maxcc cfg) = Inr wfs_dates \<and>
     get_dates cfg wfs_dates ti = Inr dates \<and>
     build_requests ev cfg request dates = Inr requests \<and>
     download ev requests = Inr results \<and>
     assemble ev cfg eop b ti sz dates results = Inr p"
  using assms by (auto simp: execute_def Let_def split: sum.splits prod.splits)

text \<open>Successful runs on the example inputs.\<close>

lemma build_request_sized:
  assumes "size cfg = Some (sx, sy)"
  shows "\<exists>script. build_request ev cfg (Some bb) =
     Inr ((sx, sy), shr_body ev (opengis_string bb) (bbox_list bb) (api_identifier (data_source cfg)) sx sy script)"
  using assms generate_evalscript_returns[of cfg]
  by (auto simp: build_request_def resolve_size_def)

lemma request_from_date_example:
  "\<exists>payload. request_from_date (example_body c bx dt sx sy script) example_date mcc = Inr payload"
  by (simp add: request_from_date_def add_second_def example_body_def set_time_range_def Let_def
       example_date_def MAX_DATETIME_def US_PER_DAY_def US_PER_SECOND_def)

lemma execute_example_from_assemble:
  assumes sz: "size cfg = Some (2, 2)"
    and td: "time_difference cfg = 0"
    and a: "assemble (example_env [example_date] [example_result]) cfg None (Some example_bbox)
              (Some example_interval) (2, 2) [example_date] [example_result] = Inr p"
  shows "fst (execute (example_env [example_date] [example_result]) cfg None
            (Some example_bbox) (Some example_interval)) = Inr p"
proof -
  let ?ev = "example_env [example_date] [example_result]"
  obtain script where br: "build_request ?ev cfg (Some example_bbox) =
     Inr ((2, 2), shr_body ?ev (opengis_string example_bbox) (bbox_list example_bbox)
                    (api_identifier (data_source cfg)) 2 2 script)"
    using build_request_sized[OF sz] by blast
  have g: "get_dates cfg [example_date] (Some example_interval) = Inr [example_date]"
    by (simp add: get_dates_def)
  obtain payload where r: "request_from_date
      (example_body (opengis_string example_bbox) (bbox_list example_bbox)
         (api_identifier (data_source cfg)) 2 2 script) example_date (maxcc cfg) = Inr payload"
    using request_from_date_example by blast
  show ?thesis using br g r a
    by (simp add: execute_def Let_def build_requests_def example_env_def)
qed


lemma execute_example_masks:
  "\<exists>p. fst (execute (example_env [example_date] [example_result]) example_config_masks None
            (Some example_bbox) (Some example_interval)) = Inr p"
proof -
  have "\<not> isl (assemble (example_env [example_date] [example_result]) example_config_masks None
            (Some example_bbox) (Some example_interval) (2, 2) [example_date] [example_result])"
    by code_simp
  then obtain p where "assemble (example_env [example_date] [example_result]) example_config_masks None
            (Some example_bbox) (Some example_interval) (2, 2) [example_date] [example_result] = Inr p"
    by (metis sum.collapse(2))
  from execute_example_from_assemble[OF _ _ this] show ?thesis
    by (simp add: example_config_masks_def init_def Let_def)
qed

text \<open>
  C3. When the feature service is queried and answers with no date,
  \<^verbatim>\<open>execute\<close> raises the \<^verbatim>\<open>ValueError\<close> of \<^verbatim>\<open>get_dates\<close>, whose message
  ends with the time interval of the call, and the query is the only call to a
  network collaborator: nothing is submitted to the download client.
\<close>

theorem execute_no_data:
  assumes "wfs_get_dates ev b ti (data_source cfg) (maxcc cfg) = Inr []"
    and "WfsQuery b ti (data_source cfg) (maxcc cfg) \<in> set (snd (execute ev cfg eop b ti))"
  shows "execute ev cfg eop b ti =
     (Inl (ValueError (''No available images for requested time range: '' @ str_time_interval ti)),
      [WfsQuery b ti (data_source cfg) (maxcc cfg)])"
proof (cases "build_request ev cfg b")
  case (Inl e)
  then have "snd (execute ev cfg eop b ti) = []" by (simp add: execute_def)
  with assms(2) show ?thesis by simp
next
  case (Inr x)
  then show ?thesis using assms(1) by (cases x) (simp add: execute_def get_dates_Nil Let_def)
qed

theorem execute_no_data_witness:
  "wfs_get_dates (example_env [] []) (Some example_bbox) (Some example_interval)
     (data_source (example_config 0)) (maxcc (example_config 0)) = Inr [] \<and>
   WfsQuery (Some example_bbox) (Some example_interval) (data_source (example_config 0))
     (maxcc (example_config 0))
     \<in> set (snd (execute (example_env [] []) (example_config 0) None (Some example_bbox)
                    (Some example_interval))) \<and>
   execute (example_env [] []) (example_config 0) None (Some example_bbox) (Some example_interval) =
     (Inl (ValueError (''No available images for requested time range: '' @
                        str_time_interval (Some example_interval))),
      [WfsQuery (Some example_bbox) (Some example_interval) (data_source (example_config 0))
         (maxcc (example_config 0))])"
proof -
  let ?ev = "example_env [] []" and ?cfg = "example_config 0"
  have "size ?cfg = Some (2, 2)" by (simp add: example_config_def init_def Let_def)
  from build_request_sized[OF this]
  obtain script where br: "build_request ?ev ?cfg (Some example_bbox) =
     Inr ((2, 2), shr_body ?ev (opengis_string example_bbox) (bbox_list example_bbox)
                    (api_identifier (data_source ?cfg)) 2 2 script)"
    by blast
  have h1: "wfs_get_dates ?ev (Some example_bbox) (Some example_interval) (data_source ?cfg) (maxcc ?cfg) = Inr []"
    by (simp add: example_env_def)
  have h2: "WfsQuery (Some example_bbox) (Some example_interval) (data_source ?cfg) (maxcc ?cfg)
      \<in> set (snd (execute ?ev ?cfg None (Some example_bbox) (Some example_interval)))"
    using br h1 by (simp add: execute_def get_dates_Nil Let_def)
  show ?thesis using h1 h2 execute_no_data[OF h1 h2] by simp
qed





text \<open>
  C10. A task constructed without a target feature for the primary bands has no
  primary bands, whatever band names were passed, and a successful \<^verbatim>\<open>execute\<close>
  then stores nothing but the arrays of the additional bands. A task constructed
  with a target feature and without band names (none, or an empty list) takes all
  the bands of its data source, which are then the first bands of its band list.
\<close>

theorem init_bands:
  "bands (init ds sz res None bs ad mcc td cf mt) = [] \<and>
   (fst (execute ev (init ds sz res None bs ad mcc td cf mt) eop b ti) = Inr p \<longrightarrow>
      (\<forall>f. f \<notin> set (additional_data (init ds sz res None bs ad mcc td cf mt)) \<longrightarrow>
           features p f = features (case eop of None \<Rightarrow> EOPatch | Some q \<Rightarrow> q) f)) \<and>
   bands (init ds sz res (Some bf) None ad mcc td cf mt) = ds_bands ds \<and>
   bands (init ds sz res (Some bf) (Some []) ad mcc td cf mt) = ds_bands ds \<and>
   all_bands (init ds sz res (Some bf) None ad mcc td cf mt) =
     ds_bands ds @ map snd (additional_data (init ds sz res (Some bf) None ad mcc td cf mt))"
proof -
  let ?cfg = "init ds sz res None bs ad mcc td cf mt"
  have b0: "bands ?cfg = []" by (simp add: init_def Let_def)
  have "fst (execute ev ?cfg eop b ti) = Inr p \<longrightarrow>
      (\<forall>f. f \<notin> set (additional_data ?cfg) \<longrightarrow>
           features p f = features (case eop of None \<Rightarrow> EOPatch | Some q \<Rightarrow> q) f)"
  proof
    assume "fst (execute ev ?cfg eop b ti) = Inr p"
    from execute_Inr[OF this] obtain sz' dates results where
      "assemble ev ?cfg eop b ti sz' dates results = Inr p" by blast
    from assemble_result[OF this] b0
    show "\<forall>f. f \<notin> set (additional_data ?cfg) \<longrightarrow>
           features p f = features (case eop of None \<Rightarrow> EOPatch | Some q \<Rightarrow> q) f"
      by blast
  qed
  then show ?thesis by (simp add: init_def Let_def)
qed

theorem init_bands_witness:
  "\<exists>p. fst (execute (example_env [example_date] [example_result])
              (init example_source (Some (2, 2)) None None (Some [''B04'', ''B08''])
                 (Some [(MASK, ''CLM'')]) 1 0 None 5)
              None (Some example_bbox) (Some example_interval)) = Inr p \<and>
       (\<forall>f. f \<notin> set (additional_data (init example_source (Some (2, 2)) None None
                                  (Some [''B04'', ''B08'']) (Some [(MASK, ''CLM'')]) 1 0 None 5)) \<longrightarrow>
            features p f = features EOPatch f) \<and>
       features p (DATA, ''BANDS'') = None"
proof -
  obtain p where p: "fst (execute (example_env [example_date] [example_result])
              (init example_source (Some (2, 2)) None None (Some [''B04'', ''B08''])
                 (Some [(MASK, ''CLM'')]) 1 0 None 5)
              None (Some example_bbox) (Some example_interval)) = Inr p"
    using execute_example_masks by (auto simp: example_config_masks_def)
  from init_bands [of example_source "Some (2, 2)" None "Some [''B04'', ''B08'']"
      "Some [(MASK, ''CLM'')]" 1 0 None 5 "example_env [example_date] [example_result]" None
      "Some example_bbox" "Some example_interval" p] p
  have u: "\<forall>f. f \<notin> set (additional_data (init example_source (Some (2, 2)) None None
                                  (Some [''B04'', ''B08'']) (Some [(MASK, ''CLM'')]) 1 0 None 5)) \<longrightarrow>
            features p f = features EOPatch f"
    by simp
  then have "features p (DATA, ''BANDS'') = None"
    by (simp add: init_def Let_def EOPatch_def)
  with p u show ?thesis by blast
qed

end
